theory Spec2Isabelle
  imports Complex_Main "HOL-Library.Char_ord" "HOL-Library.List_Lexorder"
begin

section \<open>JavaScript values\<close>

text \<open>
  The module \<^verbatim>\<open>search_builder_conditions.js\<close> is dynamically typed. The values it
  handles are modelled by two datatypes: the primitives (field names, option values,
  labels) and the JSON-like data built from them with arrays (choice lists).

  Fragment: a Number is a safe integer, an integer of magnitude below \<open>2 ^ 53\<close> (the type
  \<open>safe_integer\<close>: each of them is a double, and its string is its decimal numeral); a
  string is a list of Latin-1 characters, whose order is the order of their code units.
  Objects with identity, functions, Symbols and BigInts are not values of the model.
\<close>

typedef safe_integer = "{n :: int. \<bar>n\<bar> < 2 ^ 53}"
  morphisms integer_value SafeInteger
  by (rule exI [of _ 0]) simp

datatype prim = JUndefined | JNull | JBool bool | JNum safe_integer | JStr string

datatype jsval = Prim prim | JArr "jsval list"

datatype error = TypeError

subsection \<open>ToNumber on strings\<close>

text \<open>
  \<open>StringToNumber\<close> follows the grammar \<open>StringNumericLiteral\<close> of ECMAScript:
  white space is trimmed, the empty string is 0, then either a binary, octal or
  hexadecimal integer literal without sign, or a decimal literal with optional sign,
  fraction and exponent, or \<open>Infinity\<close>. The mathematical value of the literal, a
  quotient \<open>a / b\<close> of two naturals, is rounded to the nearest double, ties to even
  (\<open>round_double\<close>): with \<open>e\<close> the binary exponent of the quotient, the doubles around it
  are the multiples of \<open>2 ^ (e - 52)\<close>, and of \<open>2 ^ (- 1074)\<close> in the subnormal range; a
  result of \<open>2 ^ 1024\<close> or more is infinite. A finite double is kept as the rational it
  denotes, and the two zeros are one value, as they are for \<^verbatim>\<open>==\<close>.
\<close>

datatype number = NaN | PosInfinity | NegInfinity | Finite rat

fun bitlen :: "nat \<Rightarrow> nat" where
  "bitlen n = (if n = 0 then 0 else Suc (bitlen (n div 2)))"

declare bitlen.simps [simp del]

definition pow2 :: "int \<Rightarrow> rat" where
  "pow2 p = (if 0 \<le> p then 2 ^ nat p else 1 / 2 ^ nat (- p))"

definition round_half_even :: "nat \<Rightarrow> nat \<Rightarrow> nat" where
  "round_half_even a b =
     (let f = a div b; r = a mod b
      in if 2 * r < b then f else if b < 2 * r then f + 1 else if even f then f else f + 1)"

definition round_double :: "nat \<Rightarrow> nat \<Rightarrow> number" where
  "round_double a b =
     (if a = 0 then Finite 0
      else
        let e0 = int (bitlen a) - int (bitlen b);
            e = (if (if 0 \<le> e0 then b * 2 ^ nat e0 \<le> a else b \<le> a * 2 ^ nat (- e0))
                 then e0 else e0 - 1);
            p = max (e - 52) (- 1074);
            m = (if 0 \<le> p then round_half_even a (b * 2 ^ nat p)
                 else round_half_even (a * 2 ^ nat (- p)) b)
        in if 0 \<le> p \<and> 2 ^ 1024 \<le> m * 2 ^ nat p then PosInfinity
           else Finite (of_nat m * pow2 p))"

definition StrWhiteSpaceChar :: "char \<Rightarrow> bool" where
  "StrWhiteSpaceChar c =
     (c \<in> set [CHR 0x09, CHR 0x0A, CHR 0x0B, CHR 0x0C, CHR 0x0D, CHR 0x20, CHR 0xA0])"

definition trim :: "string \<Rightarrow> string" where
  "trim s = rev (dropWhile StrWhiteSpaceChar (rev (dropWhile StrWhiteSpaceChar s)))"

definition digit_of :: "char \<Rightarrow> nat option" where
  "digit_of c = (let k = (of_char c :: nat) in
     if 48 \<le> k \<and> k \<le> 57 then Some (k - 48)
     else if 97 \<le> k \<and> k \<le> 102 then Some (k - 87)
     else if 65 \<le> k \<and> k \<le> 70 then Some (k - 55)
     else None)"

definition is_digit :: "nat \<Rightarrow> char \<Rightarrow> bool" where
  "is_digit b c = (case digit_of c of None \<Rightarrow> False | Some d \<Rightarrow> d < b)"

fun digits_value :: "nat \<Rightarrow> nat \<Rightarrow> string \<Rightarrow> nat" where
  "digits_value b acc [] = acc"
| "digits_value b acc (c # cs) =
     digits_value b (acc * b + (case digit_of c of None \<Rightarrow> 0 | Some d \<Rightarrow> d)) cs"

definition all_digits :: "nat \<Rightarrow> string \<Rightarrow> bool" where
  "all_digits b ds = (ds \<noteq> [] \<and> list_all (is_digit b) ds)"

definition NonDecimalIntegerLiteral :: "string \<Rightarrow> nat option" where
  "NonDecimalIntegerLiteral t =
     (case t of
        z # p # ds \<Rightarrow>
          if z \<noteq> CHR ''0'' then None
          else if (p = CHR ''x'' \<or> p = CHR ''X'') \<and> all_digits 16 ds
            then Some (digits_value 16 0 ds)
          else if (p = CHR ''o'' \<or> p = CHR ''O'') \<and> all_digits 8 ds
            then Some (digits_value 8 0 ds)
          else if (p = CHR ''b'' \<or> p = CHR ''B'') \<and> all_digits 2 ds
            then Some (digits_value 2 0 ds)
          else None
      | _ \<Rightarrow> None)"

definition SignedInteger :: "string \<Rightarrow> int option" where
  "SignedInteger cs =
     (case cs of
        [] \<Rightarrow> None
      | d # ds \<Rightarrow>
          if d = CHR ''-'' then
            (if all_digits 10 ds then Some (- int (digits_value 10 0 ds)) else None)
          else if d = CHR ''+'' then
            (if all_digits 10 ds then Some (int (digits_value 10 0 ds)) else None)
          else if all_digits 10 cs then Some (int (digits_value 10 0 cs)) else None)"

definition ExponentPart_opt :: "string \<Rightarrow> int option" where
  "ExponentPart_opt r =
     (case r of
        [] \<Rightarrow> Some 0
      | c # cs \<Rightarrow> if c = CHR ''e'' \<or> c = CHR ''E'' then SignedInteger cs else None)"

definition scale10 :: "nat \<Rightarrow> int \<Rightarrow> number" where
  "scale10 m e =
     (if 0 \<le> e then round_double (m * 10 ^ nat e) 1 else round_double m (10 ^ nat (- e)))"

definition StrUnsignedDecimalLiteral :: "string \<Rightarrow> number" where
  "StrUnsignedDecimalLiteral r =
     (if r = ''Infinity'' then PosInfinity
      else
        let ip = takeWhile (is_digit 10) r;
            r1 = dropWhile (is_digit 10) r;
            fp = (case r1 of
                    [] \<Rightarrow> []
                  | c # cs \<Rightarrow> if c = CHR ''.'' then takeWhile (is_digit 10) cs else []);
            r2 = (case r1 of
                    [] \<Rightarrow> []
                  | c # cs \<Rightarrow> if c = CHR ''.'' then dropWhile (is_digit 10) cs else r1)
        in if ip = [] \<and> fp = [] then NaN
           else (case ExponentPart_opt r2 of
                   None \<Rightarrow> NaN
                 | Some e \<Rightarrow>
                     scale10 (digits_value 10 0 (ip @ fp)) (e - int (length fp))))"

definition negate :: "number \<Rightarrow> number" where
  "negate x = (case x of NaN \<Rightarrow> NaN | PosInfinity \<Rightarrow> NegInfinity
                | NegInfinity \<Rightarrow> PosInfinity | Finite q \<Rightarrow> Finite (- q))"

definition StringToNumber :: "string \<Rightarrow> number" where
  "StringToNumber s =
     (let t = trim s in
      case t of
        [] \<Rightarrow> Finite 0
      | c # cs \<Rightarrow>
          (case NonDecimalIntegerLiteral t of
             Some n \<Rightarrow> round_double n 1
           | None \<Rightarrow>
               if c = CHR ''+'' then StrUnsignedDecimalLiteral cs
               else if c = CHR ''-'' then negate (StrUnsignedDecimalLiteral cs)
               else StrUnsignedDecimalLiteral t))"

subsection \<open>Loose equality\<close>

text \<open>
  \<open>IsLooselyEqual x y\<close> is the operator \<^verbatim>\<open>x == y\<close> on primitives: values of one type
  are compared strictly, \<^verbatim>\<open>null\<close> and \<^verbatim>\<open>undefined\<close> equal each other, a string
  facing a number is converted by \<open>StringToNumber\<close>, and a boolean is converted to 0 or 1
  and compared again.
\<close>

definition is_bool :: "prim \<Rightarrow> bool" where
  "is_bool x = (case x of JBool _ \<Rightarrow> True | _ \<Rightarrow> False)"

function (sequential) IsLooselyEqual :: "prim \<Rightarrow> prim \<Rightarrow> bool" where
  "IsLooselyEqual JUndefined JUndefined = True"
| "IsLooselyEqual JNull JNull = True"
| "IsLooselyEqual (JBool a) (JBool b) = (a = b)"
| "IsLooselyEqual (JNum a) (JNum b) = (a = b)"
| "IsLooselyEqual (JStr a) (JStr b) = (a = b)"
| "IsLooselyEqual JNull JUndefined = True"
| "IsLooselyEqual JUndefined JNull = True"
| "IsLooselyEqual (JNum n) (JStr s) = (Finite (of_int (integer_value n)) = StringToNumber s)"
| "IsLooselyEqual (JStr s) (JNum n) = (StringToNumber s = Finite (of_int (integer_value n)))"
| "IsLooselyEqual (JBool b) y =
     IsLooselyEqual (JNum (if b then SafeInteger 1 else SafeInteger 0)) y"
| "IsLooselyEqual x (JBool b) =
     IsLooselyEqual x (JNum (if b then SafeInteger 1 else SafeInteger 0))"
| "IsLooselyEqual _ _ = False"
  by pat_completeness auto
termination
  by (relation "measure (\<lambda>(x, y). (if is_bool x then 1 else 0) + (if is_bool y then 1 else 0))")
     (auto simp: is_bool_def)

section \<open>Choice lookup\<close>

text \<open>
  One entry of \<^verbatim>\<open>fields_config\<close>: the properties \<^verbatim>\<open>name\<close> and \<^verbatim>\<open>choices\<close> that
  \<^verbatim>\<open>get_field_choices\<close> reads. A missing property reads as \<^verbatim>\<open>undefined\<close>.
\<close>

record field_config =
  name :: prim
  choices :: jsval

text \<open>
  \<^verbatim>\<open>for (const item of fields_config) { if (item.name == field_name) return item.choices }\<close>:
  the loop returns at the first hit; falling off its end, the function returns
  \<^verbatim>\<open>undefined\<close>.
\<close>

fun get_field_choices :: "prim \<Rightarrow> field_config list \<Rightarrow> jsval" where
  "get_field_choices field_name [] = Prim JUndefined"
| "get_field_choices field_name (item # rest) =
     (if IsLooselyEqual (name item) field_name then choices item
      else get_field_choices field_name rest)"

section \<open>Strings of values\<close>

text \<open>
  \<open>ToString\<close> of a safe integer is its decimal numeral; of an array it is
  \<^verbatim>\<open>join(",")\<close>, where \<^verbatim>\<open>undefined\<close> and \<^verbatim>\<open>null\<close> elements give the empty string.
\<close>

fun nat_digits :: "nat \<Rightarrow> string" where
  "nat_digits n =
     (if n < 10 then [''0123456789'' ! n]
      else nat_digits (n div 10) @ [''0123456789'' ! (n mod 10)])"

declare nat_digits.simps [simp del]

definition NumberToString :: "safe_integer \<Rightarrow> string" where
  "NumberToString n =
     (if integer_value n < 0 then CHR ''-'' # nat_digits (nat (- integer_value n))
      else nat_digits (nat (integer_value n)))"

fun join :: "string \<Rightarrow> string list \<Rightarrow> string" where
  "join sep [] = []"
| "join sep [x] = x"
| "join sep (x # y # ys) = x @ sep @ join sep (y # ys)"

definition prim_ToString :: "prim \<Rightarrow> string" where
  "prim_ToString p =
     (case p of
        JUndefined \<Rightarrow> ''undefined''
      | JNull \<Rightarrow> ''null''
      | JBool b \<Rightarrow> (if b then ''true'' else ''false'')
      | JNum n \<Rightarrow> NumberToString n
      | JStr s \<Rightarrow> s)"

fun ToString :: "jsval \<Rightarrow> string" where
  "ToString (Prim p) = prim_ToString p"
| "ToString (JArr xs) =
     join '',''
       (map (\<lambda>x. if x = Prim JUndefined \<or> x = Prim JNull then [] else ToString x) xs)"

section \<open>Arrays\<close>

text \<open>
  \<^verbatim>\<open>item[i]\<close>: a property read throws on \<^verbatim>\<open>undefined\<close> and \<^verbatim>\<open>null\<close>, reads a
  character of a string, and is \<^verbatim>\<open>undefined\<close> past the end and on numbers and booleans.
\<close>

definition js_index :: "jsval \<Rightarrow> nat \<Rightarrow> error + jsval" where
  "js_index item i =
     (case item of
        Prim JUndefined \<Rightarrow> Inl TypeError
      | Prim JNull \<Rightarrow> Inl TypeError
      | Prim (JStr s) \<Rightarrow> Inr (if i < length s then Prim (JStr [s ! i]) else Prim JUndefined)
      | Prim _ \<Rightarrow> Inr (Prim JUndefined)
      | JArr xs \<Rightarrow> Inr (if i < length xs then xs ! i else Prim JUndefined))"

text \<open>
  \<^verbatim>\<open>Array.from(values)\<close>: \<^verbatim>\<open>undefined\<close> and \<^verbatim>\<open>null\<close> are not iterable and the call
  throws; an array is copied; a string gives its characters; a number or a boolean has
  neither an iterator nor a length and gives the empty array.
\<close>

definition Array_from :: "jsval \<Rightarrow> error + jsval list" where
  "Array_from values =
     (case values of
        Prim JUndefined \<Rightarrow> Inl TypeError
      | Prim JNull \<Rightarrow> Inl TypeError
      | Prim (JStr s) \<Rightarrow> Inr (map (\<lambda>c. Prim (JStr [c])) s)
      | Prim _ \<Rightarrow> Inr []
      | JArr xs \<Rightarrow> Inr xs)"

text \<open>
  \<^verbatim>\<open>.sort()\<close> with no comparator: \<^verbatim>\<open>undefined\<close> elements go last, the others are
  ordered by the code units of their \<open>ToString\<close>, and the sort is stable.
\<close>

definition js_sort :: "jsval list \<Rightarrow> jsval list" where
  "js_sort xs =
     sort_key ToString (filter (\<lambda>x. x \<noteq> Prim JUndefined) xs) @
     filter (\<lambda>x. x = Prim JUndefined) xs"

section \<open>The rendered control\<close>

text \<open>
  The part of the document that the module builds and reads: \<^verbatim>\<open>option\<close> elements with
  their \<^verbatim>\<open>value\<close> attribute and text, a single-select element (no \<^verbatim>\<open>multiple\<close>
  attribute is ever set) with its class list, options and selected index (\<open>None\<close> is the
  index -1), and the wrapper \<^verbatim>\<open>div\<close> with its children and the \<^verbatim>\<open>change\<close> listeners bound
  to it. A listener is the closure \<^verbatim>\<open>function () { fn(that, this) }\<close>, kept as the pair of
  the callback and the criteria it captured.
\<close>

record option_el =
  opt_value :: string
  opt_text :: string

record select_el =
  className :: "string list"
  options :: "option_el list"
  selectedIndex :: "nat option"

record criteria =
  classes_value :: string
  classes_input :: string
  origData :: prim

record 'fn wrapper =
  children :: "select_el list"
  change_listeners :: "('fn \<times> criteria) list"

definition html_space :: "char \<Rightarrow> bool" where
  "html_space c = (c \<in> set [CHR 0x20, CHR 0x09, CHR 0x0D, CHR 0x0A, CHR 0x0C])"

fun class_tokens :: "string \<Rightarrow> string \<Rightarrow> string list" where
  "class_tokens cur [] = (if cur = [] then [] else [cur])"
| "class_tokens cur (c # cs) =
     (if html_space c then (if cur = [] then class_tokens [] cs else cur # class_tokens [] cs)
      else class_tokens (cur @ [c]) cs)"

text \<open>jQuery's \<^verbatim>\<open>.addClass(value)\<close>: each class of the string not yet present is added.\<close>

definition addClass :: "string \<Rightarrow> select_el \<Rightarrow> select_el" where
  "addClass v el =
     el\<lparr>className :=
          fold (\<lambda>c cur. if c \<in> set cur then cur else cur @ [c]) (class_tokens [] v) (className el)\<rparr>"

text \<open>
  Inserting an option into a single-select in which nothing is selected selects the first
  option; otherwise the selection stays.
\<close>

definition appendTo :: "option_el \<Rightarrow> select_el \<Rightarrow> select_el" where
  "appendTo opt input =
     input\<lparr>options := options input @ [opt],
           selectedIndex := (case selectedIndex input of None \<Rightarrow> Some 0 | Some i \<Rightarrow> Some i)\<rparr>"

text \<open>
  jQuery's \<^verbatim>\<open>.val(v)\<close> on an option: \<^verbatim>\<open>null\<close> and \<^verbatim>\<open>undefined\<close> become the empty
  string, a number becomes its string, the elements of an array become strings, and the
  result is assigned to the option's \<^verbatim>\<open>value\<close>, which stores its \<open>ToString\<close>.
\<close>

definition val_set :: "jsval \<Rightarrow> string" where
  "val_set v =
     ToString
       (case v of
          Prim JUndefined \<Rightarrow> Prim (JStr [])
        | Prim JNull \<Rightarrow> Prim (JStr [])
        | Prim (JNum n) \<Rightarrow> Prim (JStr (NumberToString n))
        | Prim p \<Rightarrow> Prim p
        | JArr xs \<Rightarrow>
            JArr (map (\<lambda>x. if x = Prim JUndefined \<or> x = Prim JNull then Prim (JStr [])
                            else Prim (JStr (ToString x))) xs))"

text \<open>
  jQuery's \<^verbatim>\<open>.text(l)\<close> on a new option: \<^verbatim>\<open>undefined\<close> sets nothing, \<^verbatim>\<open>null\<close> sets the
  empty text, anything else sets its \<open>ToString\<close>.
\<close>

definition text_set :: "jsval \<Rightarrow> string" where
  "text_set l = (if l = Prim JUndefined \<or> l = Prim JNull then [] else ToString l)"

text \<open>
  The body of the \<^verbatim>\<open>forEach\<close> of \<^verbatim>\<open>createSelectDropdown\<close>, over the sorted items:
  \<^verbatim>\<open>$('<option>').val(item[0]).text(item[1]).appendTo(input)\<close>.
\<close>

fun forEach_option :: "jsval list \<Rightarrow> select_el \<Rightarrow> error + select_el" where
  "forEach_option [] input = Inr input"
| "forEach_option (item # items) input =
     (case js_index item 0 of
        Inl e \<Rightarrow> Inl e
      | Inr v \<Rightarrow>
          (case js_index item 1 of
             Inl e \<Rightarrow> Inl e
           | Inr l \<Rightarrow>
               forEach_option items
                 (appendTo \<lparr>opt_value = val_set v, opt_text = text_set l\<rparr> input)))"

definition createSelectDropdown :: "criteria \<Rightarrow> jsval \<Rightarrow> error + 'fn wrapper" where
  "createSelectDropdown that values =
     (let input =
            addClass ''dtsb-value dtsb-dropDown form-select dtsb-italic dtsb-greyscale''
              (addClass (classes_input that)
                (addClass (classes_value that)
                  \<lparr>className = [], options = [], selectedIndex = None\<rparr>));
          input = appendTo \<lparr>opt_value = [], opt_text = ''Select''\<rparr> input
      in case Array_from values of
           Inl e \<Rightarrow> Inl e
         | Inr items \<Rightarrow>
             (case forEach_option (js_sort items) input of
                Inl e \<Rightarrow> Inl e
              | Inr input \<Rightarrow> Inr \<lparr>children = [input], change_listeners = []\<rparr>))"

text \<open>
  Reading the control. jQuery's \<^verbatim>\<open>.val()\<close> on a single-select gives the \<^verbatim>\<open>value\<close> of
  the selected option and \<^verbatim>\<open>null\<close> when none is selected; on an empty set it gives
  \<^verbatim>\<open>undefined\<close>. \<open>find_select_val el\<close> is \<^verbatim>\<open>$(el[0]).find('select').val()\<close>, where
  \<open>el\<close> is the array of elements that the host keeps for the row.
\<close>

definition select_val :: "select_el \<Rightarrow> prim" where
  "select_val sel =
     (case selectedIndex sel of
        None \<Rightarrow> JNull
      | Some i \<Rightarrow> if i < length (options sel) then JStr (opt_value (options sel ! i)) else JNull)"

definition find_select_val :: "'fn wrapper list \<Rightarrow> prim" where
  "find_select_val el =
     (case el of
        [] \<Rightarrow> JUndefined
      | w # _ \<Rightarrow> (case children w of [] \<Rightarrow> JUndefined | sel # _ \<Rightarrow> select_val sel))"

text \<open>
  The user picks the option at index \<open>i\<close> of the wrapper's select (an index out of range
  selects nothing, as assigning \<^verbatim>\<open>selectedIndex\<close> does).
\<close>

definition select_option :: "nat \<Rightarrow> 'fn wrapper \<Rightarrow> 'fn wrapper" where
  "select_option i w =
     w\<lparr>children :=
         (case children w of
            [] \<Rightarrow> []
          | sel # rest \<Rightarrow>
              sel\<lparr>selectedIndex := (if i < length (options sel) then Some i else None)\<rparr> # rest)\<rparr>"

section \<open>The host\<close>

text \<open>
  What the module uses of the hosting widget. \<open>i18n\<close> is the localisation function of the
  table (\<^verbatim>\<open>dt.i18n\<close>). The state of the host is the list of one-shot listeners bound
  to the table's \<^verbatim>\<open>draw.dtsb\<close> event (\<^verbatim>\<open>that.s.dt.one\<close>) and the number of times
  \<^verbatim>\<open>dtsb-redrawLogic\<close> has been triggered on the top group. The only listener that the
  module binds is the closure \<^verbatim>\<open>function () { that.s.topGroup.trigger('dtsb-redrawLogic') }\<close>.
  One table and one top group are modelled.
\<close>

record datatable =
  i18n :: "string \<Rightarrow> prim"

datatype listener = TriggerRedrawLogic

record host =
  draw_once :: "listener list"
  redrawLogic :: nat

definition run_listener :: "listener \<Rightarrow> host \<Rightarrow> host" where
  "run_listener l h = (case l of TriggerRedrawLogic \<Rightarrow> h\<lparr>redrawLogic := redrawLogic h + 1\<rparr>)"

text \<open>
  One \<^verbatim>\<open>draw\<close> event: every listener bound with \<^verbatim>\<open>one\<close> is unbound and run.
\<close>

definition draw :: "host \<Rightarrow> host" where
  "draw h = fold run_listener (draw_once h) (h\<lparr>draw_once := []\<rparr>)"

fun draws :: "nat \<Rightarrow> host \<Rightarrow> host" where
  "draws 0 h = h"
| "draws (Suc n) h = draws n (draw h)"

section \<open>Condition descriptors\<close>

text \<open>
  A descriptor is an object with up to four function properties; a property that the
  object literal does not define is \<open>None\<close>. Calling a property that is not a function
  throws a TypeError (\<open>invoke\<close>). \<open>init\<close> takes the criteria, the host's callback and the
  host's state, and returns what the function returns (\<open>None\<close> for \<^verbatim>\<open>undefined\<close>) with the
  new state. The type \<open>'a\<close> is the type of the arguments that \<open>inputValue\<close> and
  \<open>isInputValid\<close> are called with.
\<close>

record ('a, 'fn) descriptor =
  conditionName :: "(datatable \<Rightarrow> error + prim) option"
  init :: "(criteria \<times> 'fn \<times> host \<Rightarrow> error + ('fn wrapper option \<times> host)) option"
  inputValue :: "('a \<Rightarrow> error + prim) option"
  isInputValid :: "('a \<Rightarrow> error + bool) option"

definition invoke :: "('x \<Rightarrow> error + 'y) option \<Rightarrow> 'x \<Rightarrow> error + 'y" where
  "invoke m x = (case m of None \<Rightarrow> Inl TypeError | Some f \<Rightarrow> f x)"

text \<open>The object literal \<^verbatim>\<open>{}\<close>.\<close>

definition empty_descriptor :: "('a, 'fn) descriptor" where
  "empty_descriptor =
     \<lparr>conditionName = None, init = None, inputValue = None, isInputValid = None\<rparr>"

definition noInputCondition :: "string \<Rightarrow> ('a, 'fn) descriptor" where
  "noInputCondition translationKey =
     \<lparr>conditionName = Some (\<lambda>dt. Inr (i18n dt translationKey)),
      init = Some (\<lambda>(that, fn, h).
        Inr (None, h\<lparr>draw_once := draw_once h @ [TriggerRedrawLogic]\<rparr>)),
      inputValue = Some (\<lambda>args. Inr JUndefined),
      isInputValid = Some (\<lambda>args. Inr True)\<rparr>"

text \<open>
  \<^verbatim>\<open>x.length > 0\<close> for the result \<open>x\<close> of \<^verbatim>\<open>.val()\<close>: reading \<^verbatim>\<open>length\<close> throws on
  \<^verbatim>\<open>null\<close> and \<^verbatim>\<open>undefined\<close>, and is \<^verbatim>\<open>undefined\<close>, which is not greater than 0, on a
  number or a boolean.
\<close>

definition length_gt0 :: "prim \<Rightarrow> error + bool" where
  "length_gt0 x =
     (case x of
        JStr s \<Rightarrow> Inr (length s > 0)
      | JUndefined \<Rightarrow> Inl TypeError
      | JNull \<Rightarrow> Inl TypeError
      | _ \<Rightarrow> Inr False)"

text \<open>
  The four array conditions with a dropdown, each written out in the source. The host calls
  \<open>inputValue\<close> and \<open>isInputValid\<close> with the array \<open>el\<close> of the row's elements and the
  criteria.
\<close>

definition array_equal ::
  "field_config list \<Rightarrow> ('fn wrapper list \<times> criteria, 'fn) descriptor" where
  "array_equal fields_config =
     \<lparr>conditionName = Some (\<lambda>dt. Inr (i18n dt ''searchBuilder.conditions.array.equals'')),
      init = Some (\<lambda>(that, fn, h).
        let values = get_field_choices (origData that) fields_config in
        case createSelectDropdown that values of
          Inl e \<Rightarrow> Inl e
        | Inr el \<Rightarrow>
            Inr (Some (el\<lparr>change_listeners := change_listeners el @ [(fn, that)]\<rparr>), h)),
      inputValue = Some (\<lambda>(el, that). Inr (find_select_val el)),
      isInputValid = Some (\<lambda>(el, that). length_gt0 (find_select_val el))\<rparr>"

definition array_notEqual ::
  "field_config list \<Rightarrow> ('fn wrapper list \<times> criteria, 'fn) descriptor" where
  "array_notEqual fields_config =
     \<lparr>conditionName = Some (\<lambda>dt. Inr (i18n dt ''searchBuilder.conditions.array.not'')),
      init = Some (\<lambda>(that, fn, h).
        let values = get_field_choices (origData that) fields_config in
        case createSelectDropdown that values of
          Inl e \<Rightarrow> Inl e
        | Inr el \<Rightarrow>
            Inr (Some (el\<lparr>change_listeners := change_listeners el @ [(fn, that)]\<rparr>), h)),
      inputValue = Some (\<lambda>(el, that). Inr (find_select_val el)),
      isInputValid = Some (\<lambda>(el, that). length_gt0 (find_select_val el))\<rparr>"

definition array_contains ::
  "field_config list \<Rightarrow> ('fn wrapper list \<times> criteria, 'fn) descriptor" where
  "array_contains fields_config =
     \<lparr>conditionName = Some (\<lambda>dt. Inr (i18n dt ''searchBuilder.conditions.array.contains'')),
      init = Some (\<lambda>(that, fn, h).
        let values = get_field_choices (origData that) fields_config in
        case createSelectDropdown that values of
          Inl e \<Rightarrow> Inl e
        | Inr el \<Rightarrow>
            Inr (Some (el\<lparr>change_listeners := change_listeners el @ [(fn, that)]\<rparr>), h)),
      inputValue = Some (\<lambda>(el, that). Inr (find_select_val el)),
      isInputValid = Some (\<lambda>(el, that). length_gt0 (find_select_val el))\<rparr>"

definition array_notContains ::
  "field_config list \<Rightarrow> ('fn wrapper list \<times> criteria, 'fn) descriptor" where
  "array_notContains fields_config =
     \<lparr>conditionName = Some (\<lambda>dt. Inr (i18n dt ''searchBuilder.conditions.array.notContains'')),
      init = Some (\<lambda>(that, fn, h).
        let values = get_field_choices (origData that) fields_config in
        case createSelectDropdown that values of
          Inl e \<Rightarrow> Inl e
        | Inr el \<Rightarrow>
            Inr (Some (el\<lparr>change_listeners := change_listeners el @ [(fn, that)]\<rparr>), h)),
      inputValue = Some (\<lambda>(el, that). Inr (find_select_val el)),
      isInputValid = Some (\<lambda>(el, that). length_gt0 (find_select_val el))\<rparr>"

section \<open>The registry\<close>

text \<open>
  The object \<^verbatim>\<open>SearchBuilderConditions\<close>: data type, then condition name, then factory.
  The array factories with a dropdown take \<^verbatim>\<open>fields_config\<close>; the others take no
  argument and ignore what they are given.
\<close>

type_synonym 'fn factory =
  "field_config list \<Rightarrow> ('fn wrapper list \<times> criteria, 'fn) descriptor"

definition SearchBuilderConditions :: "string \<rightharpoonup> (string \<rightharpoonup> 'fn factory)" where
  "SearchBuilderConditions =
     [''array'' \<mapsto>
        [''equal'' \<mapsto> array_equal,
         ''notEqual'' \<mapsto> array_notEqual,
         ''contains'' \<mapsto> array_contains,
         ''notContains'' \<mapsto> array_notContains,
         ''empty'' \<mapsto> (\<lambda>_. noInputCondition ''searchBuilder.conditions.array.empty''),
         ''notEmpty'' \<mapsto> (\<lambda>_. noInputCondition ''searchBuilder.conditions.array.notEmpty'')],
      ''string'' \<mapsto>
        [''equal'' \<mapsto> (\<lambda>_. empty_descriptor),
         ''notEqual'' \<mapsto> (\<lambda>_. empty_descriptor),
         ''contains'' \<mapsto> (\<lambda>_. empty_descriptor),
         ''notContains'' \<mapsto> (\<lambda>_. empty_descriptor),
         ''startsWith'' \<mapsto> (\<lambda>_. empty_descriptor),
         ''notStartsWith'' \<mapsto> (\<lambda>_. empty_descriptor),
         ''endsWith'' \<mapsto> (\<lambda>_. empty_descriptor),
         ''notEndsWith'' \<mapsto> (\<lambda>_. empty_descriptor),
         ''empty'' \<mapsto> (\<lambda>_. noInputCondition ''starlette-admin.conditions.empty''),
         ''notEmpty'' \<mapsto> (\<lambda>_. noInputCondition ''starlette-admin.conditions.notEmpty'')],
      ''number'' \<mapsto>
        [''equal'' \<mapsto> (\<lambda>_. empty_descriptor),
         ''notEqual'' \<mapsto> (\<lambda>_. empty_descriptor),
         ''greaterThan'' \<mapsto> (\<lambda>_. empty_descriptor),
         ''greaterThanOrEqual'' \<mapsto> (\<lambda>_. empty_descriptor),
         ''lessThan'' \<mapsto> (\<lambda>_. empty_descriptor),
         ''lessThanOrEqual'' \<mapsto> (\<lambda>_. empty_descriptor),
         ''between'' \<mapsto> (\<lambda>_. empty_descriptor),
         ''notBetween'' \<mapsto> (\<lambda>_. empty_descriptor),
         ''empty'' \<mapsto> (\<lambda>_. noInputCondition ''starlette-admin.conditions.empty''),
         ''notEmpty'' \<mapsto> (\<lambda>_. noInputCondition ''starlette-admin.conditions.notEmpty'')],
      ''date'' \<mapsto>
        [''equal'' \<mapsto> (\<lambda>_. empty_descriptor),
         ''notEqual'' \<mapsto> (\<lambda>_. empty_descriptor),
         ''greaterThan'' \<mapsto> (\<lambda>_. empty_descriptor),
         ''greaterThanOrEqual'' \<mapsto> (\<lambda>_. empty_descriptor),
         ''lessThan'' \<mapsto> (\<lambda>_. empty_descriptor),
         ''lessThanOrEqual'' \<mapsto> (\<lambda>_. empty_descriptor),
         ''between'' \<mapsto> (\<lambda>_. empty_descriptor),
         ''notBetween'' \<mapsto> (\<lambda>_. empty_descriptor),
         ''empty'' \<mapsto> (\<lambda>_. noInputCondition ''starlette-admin.conditions.empty''),
         ''notEmpty'' \<mapsto> (\<lambda>_. noInputCondition ''starlette-admin.conditions.notEmpty'')],
      ''boolean'' \<mapsto>
        [''true'' \<mapsto> (\<lambda>_. noInputCondition ''starlette-admin.conditions.true''),
         ''false'' \<mapsto> (\<lambda>_. noInputCondition ''starlette-admin.conditions.false''),
         ''empty'' \<mapsto> (\<lambda>_. noInputCondition ''starlette-admin.conditions.empty''),
         ''notEmpty'' \<mapsto> (\<lambda>_. noInputCondition ''starlette-admin.conditions.notEmpty'')]]"

text \<open>\<open>factory T C\<close> is \<^verbatim>\<open>SearchBuilderConditions[T][C]\<close>, when both properties exist.\<close>

definition factory :: "string \<Rightarrow> string \<Rightarrow> 'fn factory option" where
  "factory T C = (case SearchBuilderConditions T of None \<Rightarrow> None | Some conds \<Rightarrow> conds C)"

text \<open>
  \<open>descriptor_of T C fields_config\<close> is the descriptor that the call
  \<^verbatim>\<open>SearchBuilderConditions[T][C](fields_config)\<close> returns.
\<close>

definition descriptor_of ::
  "string \<Rightarrow> string \<Rightarrow> field_config list \<Rightarrow>
   ('fn wrapper list \<times> criteria, 'fn) descriptor option" where
  "descriptor_of T C fields_config =
     (case factory T C of None \<Rightarrow> None | Some f \<Rightarrow> Some (f fields_config))"

section \<open>Choice lists\<close>

text \<open>
  A choice list is an array of pairs \<^verbatim>\<open>[value, label]\<close>. \<open>choice_pair\<close> is the array of such
  a pair, \<open>option_of\<close> the option element that the loop of \<^verbatim>\<open>createSelectDropdown\<close> builds
  from it, and \<open>sentinel\<close> the option \<^verbatim>\<open><option value="">Select</option>\<close>.
\<close>

definition choice_pair :: "jsval \<times> jsval \<Rightarrow> jsval" where
  "choice_pair p = JArr [fst p, snd p]"

definition option_of :: "jsval \<times> jsval \<Rightarrow> option_el" where
  "option_of p = \<lparr>opt_value = val_set (fst p), opt_text = text_set (snd p)\<rparr>"

definition sentinel :: option_el where
  "sentinel = \<lparr>opt_value = [], opt_text = ''Select''\<rparr>"

section \<open>Example inputs\<close>

text \<open>
  The inputs at which the theorems below are evaluated: a criteria of the host with its
  usual class names, for the column \<^verbatim>\<open>"level"\<close>; a host in which nothing is pending; a
  configuration whose choice has the number 1 as its value, and the control rendered for
  it; a configuration with the two string choices of the specification's example, in the
  order \<^verbatim>\<open>[["b","B"],["a","A"]]\<close>, and the control rendered for it.
\<close>

abbreviation ex_that :: criteria where
  "ex_that \<equiv>
     \<lparr>classes_value = ''dtsb-value'', classes_input = ''dtsb-input'', origData = JStr ''level''\<rparr>"

abbreviation ex_host :: host where
  "ex_host \<equiv> \<lparr>draw_once = [], redrawLogic = 0\<rparr>"

abbreviation ex_className :: "string list" where
  "ex_className \<equiv>
     [''dtsb-value'', ''dtsb-input'', ''dtsb-dropDown'', ''form-select'', ''dtsb-italic'',
      ''dtsb-greyscale'']"

abbreviation num_config :: "field_config list" where
  "num_config \<equiv>
     [\<lparr>name = JStr ''level'', choices = JArr [JArr [Prim (JNum (SafeInteger 1)), Prim (JStr ''One'')]]\<rparr>]"

abbreviation num_select :: select_el where
  "num_select \<equiv>
     \<lparr>className = ex_className,
      options = [\<lparr>opt_value = [], opt_text = ''Select''\<rparr>,
                 \<lparr>opt_value = ''1'', opt_text = ''One''\<rparr>],
      selectedIndex = Some 0\<rparr>"

abbreviation str_pairs :: "(jsval \<times> jsval) list" where
  "str_pairs \<equiv> [(Prim (JStr ''b''), Prim (JStr ''B'')), (Prim (JStr ''a''), Prim (JStr ''A''))]"

abbreviation str_config :: "field_config list" where
  "str_config \<equiv>
     [\<lparr>name = JStr ''level'',
       choices = JArr [JArr [Prim (JStr ''b''), Prim (JStr ''B'')],
                       JArr [Prim (JStr ''a''), Prim (JStr ''A'')]]\<rparr>]"

abbreviation str_select :: select_el where
  "str_select \<equiv>
     \<lparr>className = ex_className,
      options = [\<lparr>opt_value = [], opt_text = ''Select''\<rparr>,
                 \<lparr>opt_value = ''a'', opt_text = ''A''\<rparr>,
                 \<lparr>opt_value = ''b'', opt_text = ''B''\<rparr>],
      selectedIndex = Some 0\<rparr>"

section \<open>Properties of the number conversion\<close>

text \<open>
  \<open>bitlen n\<close> is the number of binary digits of \<open>n\<close>. The string of a safe integer
  converts to it exactly (\<open>round_double_safe\<close>), and a quotient below \<open>2 ^ (- 1075)\<close>,
  half of the least positive double, converts to 0 (\<open>round_double_underflow\<close>).
\<close>

lemma bitlen_bound: "n < 2 ^ k \<Longrightarrow> bitlen n \<le> k"
proof (induction k arbitrary: n)
  case 0
  then show ?case by (simp add: bitlen.simps)
next
  case (Suc k)
  then have "n div 2 < 2 ^ k" by simp
  from Suc.IH [OF this] show ?case by (simp add: bitlen.simps [of n])
qed

lemma bitlen_lower: "2 ^ k \<le> n \<Longrightarrow> k < bitlen n"
proof (induction k arbitrary: n)
  case 0
  then show ?case by (simp add: bitlen.simps [of n])
next
  case (Suc k)
  then have "2 ^ k \<le> n div 2" by simp
  moreover have "n \<noteq> 0"
  proof
    assume "n = 0"
    with Suc.prems show False by simp
  qed
  ultimately show ?case using Suc.IH [of "n div 2"] by (simp add: bitlen.simps [of n])
qed

lemma bitlen_pow: "0 < n \<Longrightarrow> 2 ^ (bitlen n - 1) \<le> n"
proof (rule ccontr)
  assume n: "0 < n" and "\<not> 2 ^ (bitlen n - 1) \<le> n"
  then have "n < 2 ^ (bitlen n - 1)" by simp
  from bitlen_bound [OF this] have "bitlen n = 0" by simp
  with n show False by (simp add: bitlen.simps [of n])
qed

lemma round_double_unfold:
  assumes "a \<noteq> 0"
    and "e0 = int (bitlen a) - int (bitlen b)"
    and "e = (if (if 0 \<le> e0 then b * 2 ^ nat e0 \<le> a else b \<le> a * 2 ^ nat (- e0))
              then e0 else e0 - 1)"
    and "p = max (e - 52) (- 1074)"
    and "m = (if 0 \<le> p then round_half_even a (b * 2 ^ nat p)
              else round_half_even (a * 2 ^ nat (- p)) b)"
  shows "round_double a b =
     (if 0 \<le> p \<and> 2 ^ 1024 \<le> m * 2 ^ nat p then PosInfinity else Finite (of_nat m * pow2 p))"
  unfolding assms(2-5) round_double_def Let_def using assms(1) by simp

lemma round_double_safe:
  assumes "a < 2 ^ 53"
  shows "round_double a (Suc 0) = Finite (of_nat a)"
proof (cases "a = 0")
  case True
  then show ?thesis by (simp add: round_double_def)
next
  case False
  define e0 where "e0 = int (bitlen a) - int (bitlen (Suc 0))"
  define e where "e = (if (if 0 \<le> e0 then Suc 0 * 2 ^ nat e0 \<le> a
                         else Suc 0 \<le> a * 2 ^ nat (- e0)) then e0 else e0 - 1)"
  define p where "p = max (e - 52) (- 1074)"
  define m where "m = (if 0 \<le> p then round_half_even a (Suc 0 * 2 ^ nat p)
                       else round_half_even (a * 2 ^ nat (- p)) (Suc 0))"
  note unfold = round_double_unfold [OF False e0_def e_def p_def m_def]
  have b1: "bitlen (Suc 0) = Suc 0" by (simp add: bitlen.simps)
  have "bitlen a \<le> 53" using bitlen_bound [OF assms] .
  then have "e0 \<le> 52" by (simp add: e0_def b1)
  then have "e \<le> 52" by (simp add: e_def)
  then have p: "p \<le> 0" by (simp add: p_def)
  have val: "of_nat m * pow2 p = (of_nat a :: rat)"
  proof (cases "p = 0")
    case True
    then show ?thesis by (simp add: m_def round_half_even_def pow2_def)
  next
    case False
    with p have "p < 0" by simp
    then show ?thesis by (simp add: m_def round_half_even_def pow2_def)
  qed
  have "\<not> (0 \<le> p \<and> 2 ^ 1024 \<le> m * 2 ^ nat p)"
  proof
    assume "0 \<le> p \<and> 2 ^ 1024 \<le> m * 2 ^ nat p"
    with p have "p = 0" "2 ^ 1024 \<le> m" by simp_all
    then have "2 ^ 1024 \<le> a" by (simp add: m_def round_half_even_def)
    moreover have "a < 2 ^ 1024" using assms by (rule less_le_trans) simp
    ultimately show False by simp
  qed
  with unfold val show ?thesis by simp
qed

lemma round_double_underflow:
  assumes a: "0 < a" and small: "a * 2 ^ 1075 < b"
  shows "round_double a b = Finite 0"
proof -
  define e0 where "e0 = int (bitlen a) - int (bitlen b)"
  define e where "e = (if (if 0 \<le> e0 then b * 2 ^ nat e0 \<le> a else b \<le> a * 2 ^ nat (- e0))
                 then e0 else e0 - 1)"
  define p where "p = max (e - 52) (- 1074)"
  define m where "m = (if 0 \<le> p then round_half_even a (b * 2 ^ nat p)
                       else round_half_even (a * 2 ^ nat (- p)) b)"
  from a have "a \<noteq> 0" by simp
  note unfold = round_double_unfold [OF this e0_def e_def p_def m_def]
  have "2 ^ (bitlen a - 1 + 1075) \<le> a * 2 ^ 1075"
    using bitlen_pow [OF a] by (simp add: power_add)
  with small have "2 ^ (bitlen a - 1 + 1075) \<le> b" by simp
  from bitlen_lower [OF this] have "bitlen a - 1 + 1075 < bitlen b" .
  then have "e0 \<le> - 1075" by (simp add: e0_def)
  then have "e \<le> - 1075" by (simp add: e_def)
  then have p: "p = - 1074" by (simp add: p_def)
  have "round_half_even (a * 2 ^ 1074) b = 0"
    using small by (simp add: round_half_even_def Let_def)
  then have "m = 0" by (simp add: m_def p)
  with unfold p show ?thesis by simp
qed

lemmas StringToNumber_eval =
  StringToNumber_def trim_def StrWhiteSpaceChar_def NonDecimalIntegerLiteral_def
  StrUnsignedDecimalLiteral_def ExponentPart_opt_def SignedInteger_def all_digits_def
  is_digit_def digit_of_def scale10_def negate_def Let_def

lemma StringToNumber_underflow: "StringToNumber ''1e-400'' = Finite 0"
proof -
  have "StringToNumber ''1e-400'' = round_double 1 (10 ^ 400)"
    by (simp add: StringToNumber_eval)
  also have "\<dots> = Finite 0"
    by (rule round_double_underflow) simp_all
  finally show ?thesis .
qed

lemma StringToNumber_one: "StringToNumber ''1'' = Finite 1"
  by (simp add: StringToNumber_eval round_double_safe)

lemma StringToNumber_forms:
  "StringToNumber '' 1.0 '' = Finite 1"
  "StringToNumber ''10e-1'' = Finite 1"
  "StringToNumber ''0x1'' = Finite 1"
  "StringToNumber ''x'' = NaN"
  by (simp_all add: StringToNumber_eval round_double_def round_half_even_def pow2_def bitlen.simps)

lemma StringToNumber_rounds:
  "StringToNumber ''9007199254740993'' = Finite 9007199254740992"
  by (simp add: StringToNumber_eval round_double_def round_half_even_def pow2_def bitlen.simps)

lemma loosely_equal_underflow: "IsLooselyEqual (JNum (SafeInteger 0)) (JStr ''1e-400'')"
  by (simp add: StringToNumber_underflow SafeInteger_inverse)

section \<open>Properties of the choice lookup\<close>

lemma get_field_choices_no_match:
  "\<forall>item \<in> set fields_config. \<not> IsLooselyEqual (name item) field_name \<Longrightarrow>
   get_field_choices field_name fields_config = Prim JUndefined"
  by (induction fields_config) auto

lemma get_field_choices_skip:
  "\<forall>p \<in> set pre. \<not> IsLooselyEqual (name p) field_name \<Longrightarrow>
   get_field_choices field_name (pre @ rest) = get_field_choices field_name rest"
  by (induction pre) auto

text \<open>
  Claim C1. For every field name and every list of field configurations,
  \<^verbatim>\<open>get_field_choices\<close> returns \<^verbatim>\<open>undefined\<close> when no entry's name equals (\<^verbatim>\<open>==\<close>) the
  queried name, and otherwise the choices of the first entry whose name does: when the
  list is \<open>pre @ item # post\<close> with no match in \<open>pre\<close> and a match at \<open>item\<close>, the result
  is \<open>choices item\<close> whatever \<open>post\<close> holds, so later entries are never consulted.
\<close>

theorem get_field_choices_first_match:
  "((\<forall>item \<in> set fields_config. \<not> IsLooselyEqual (name item) field_name) \<longrightarrow>
      get_field_choices field_name fields_config = Prim JUndefined) \<and>
   (\<forall>pre item post.
      (\<forall>p \<in> set pre. \<not> IsLooselyEqual (name p) field_name) \<and>
      IsLooselyEqual (name item) field_name \<longrightarrow>
        get_field_choices field_name (pre @ item # post) = choices item \<and>
        get_field_choices field_name (pre @ item # post) =
          get_field_choices field_name (pre @ [item]))"
  by (simp add: get_field_choices_no_match get_field_choices_skip)

text \<open>
  The example of the specification: the query \<^verbatim>\<open>"status"\<close> finds nothing in a list
  without that name, and finds the first of two entries named \<^verbatim>\<open>"status"\<close> behind an
  entry of another name.
\<close>

theorem get_field_choices_first_match_witness:
  "get_field_choices (JStr ''status'') [\<lparr>name = JStr ''kind'', choices = JArr []\<rparr>] =
     Prim JUndefined \<and>
   get_field_choices (JStr ''status'')
     ([\<lparr>name = JStr ''kind'', choices = JArr []\<rparr>] @
      \<lparr>name = JStr ''status'',
        choices = JArr [JArr [Prim (JStr ''1''), Prim (JStr ''Active'')],
                        JArr [Prim (JStr ''0''), Prim (JStr ''Inactive'')]]\<rparr> #
      [\<lparr>name = JStr ''status'', choices = JArr []\<rparr>]) =
     JArr [JArr [Prim (JStr ''1''), Prim (JStr ''Active'')],
           JArr [Prim (JStr ''0''), Prim (JStr ''Inactive'')]]"
proof -
  note t = get_field_choices_first_match
    [of "[\<lparr>name = JStr ''kind'', choices = JArr []\<rparr>]" "JStr ''status''"]
  have a: "\<forall>item \<in> set [\<lparr>name = JStr ''kind'', choices = JArr []\<rparr>].
             \<not> IsLooselyEqual (name item) (JStr ''status'')"
    by simp
  show ?thesis using t a by simp
qed

lemma number_name_found_by_string:
  assumes "StringToNumber s = Finite (of_int (integer_value n))"
    and "\<forall>e \<in> set pre. \<not> IsLooselyEqual (name e) (JStr s)"
  shows "get_field_choices (JStr s) (pre @ \<lparr>name = JNum n, choices = c\<rparr> # post) = c"
  using assms by (simp add: get_field_choices_skip)

text \<open>
  Claim C10. The comparison of \<^verbatim>\<open>get_field_choices\<close> is the coercing \<^verbatim>\<open>==\<close>, not
  \<^verbatim>\<open>===\<close>. In the list of an entry named \<^verbatim>\<open>"x"\<close> followed by an entry whose name is the
  number 1, no name is identical to the query \<^verbatim>\<open>"1"\<close> and the first name is not even
  loosely equal to it, yet the lookup returns the choices of the second entry, whatever
  the choices of the two entries are (a lookup by strict equality would return
  \<^verbatim>\<open>undefined\<close>, and one that does not compare the choices of the first entry). In
  general, an entry whose name is a number is found by every string that \<open>ToNumber\<close>
  converts to that number, behind any entries that are not loosely equal to the string,
  although a number is never identical to a string; and a string that converts to
  another number, or to none, does not find it.
\<close>

theorem get_field_choices_loose_equality:
  "(\<forall>a c. get_field_choices (JStr ''1'')
            [\<lparr>name = JStr ''x'', choices = a\<rparr>, \<lparr>name = JNum (SafeInteger 1), choices = c\<rparr>] = c) \<and>
   JStr ''x'' \<noteq> JStr ''1'' \<and> JNum (SafeInteger 1) \<noteq> JStr ''1'' \<and>
   \<not> IsLooselyEqual (JStr ''x'') (JStr ''1'') \<and>
   IsLooselyEqual (JNum (SafeInteger 1)) (JStr ''1'') \<and>
   (\<forall>n s pre c post.
      StringToNumber s = Finite (of_int (integer_value n)) \<and>
      (\<forall>e \<in> set pre. \<not> IsLooselyEqual (name e) (JStr s)) \<longrightarrow>
        JNum n \<noteq> JStr s \<and>
        get_field_choices (JStr s) (pre @ \<lparr>name = JNum n, choices = c\<rparr> # post) = c) \<and>
   (\<forall>n s c. StringToNumber s \<noteq> Finite (of_int (integer_value n)) \<longrightarrow>
      get_field_choices (JStr s) [\<lparr>name = JNum n, choices = c\<rparr>] = Prim JUndefined)"
proof -
  have one: "IsLooselyEqual (JNum (SafeInteger 1)) (JStr ''1'')"
    by (simp add: StringToNumber_one SafeInteger_inverse)
  then have "get_field_choices (JStr ''1'')
      [\<lparr>name = JStr ''x'', choices = a\<rparr>, \<lparr>name = JNum (SafeInteger 1), choices = c\<rparr>] = c"
    for a c by simp
  moreover have "get_field_choices (JStr s) [\<lparr>name = JNum n, choices = c\<rparr>] = Prim JUndefined"
    if "StringToNumber s \<noteq> Finite (of_int (integer_value n))" for n s c
    using that by auto
  ultimately show ?thesis
    using one by (simp add: number_name_found_by_string)
qed

text \<open>
  The general part at the string \<^verbatim>\<open>" 1.0 "\<close>, which converts to 1, behind an entry named
  \<^verbatim>\<open>"x"\<close>; and the string \<^verbatim>\<open>"x"\<close>, which converts to no number.
\<close>

theorem get_field_choices_loose_equality_witness:
  "get_field_choices (JStr '' 1.0 '')
     ([\<lparr>name = JStr ''x'', choices = JArr []\<rparr>] @
      \<lparr>name = JNum (SafeInteger 1),
        choices = JArr [JArr [Prim (JStr ''a''), Prim (JStr ''A'')]]\<rparr> # []) =
     JArr [JArr [Prim (JStr ''a''), Prim (JStr ''A'')]] \<and>
   JNum (SafeInteger 1) \<noteq> JStr '' 1.0 '' \<and>
   get_field_choices (JStr ''x'')
     [\<lparr>name = JNum (SafeInteger 1),
       choices = JArr [JArr [Prim (JStr ''a''), Prim (JStr ''A'')]]\<rparr>] = Prim JUndefined"
proof -
  have a: "StringToNumber '' 1.0 '' = Finite (of_int (integer_value (SafeInteger 1))) \<and>
      (\<forall>e \<in> set [\<lparr>name = JStr ''x'', choices = JArr []\<rparr>].
         \<not> IsLooselyEqual (name e) (JStr '' 1.0 ''))"
    by (simp add: StringToNumber_forms SafeInteger_inverse)
  have b: "StringToNumber ''x'' \<noteq> Finite (of_int (integer_value (SafeInteger 1)))"
    by (simp add: StringToNumber_forms)
  from get_field_choices_loose_equality a b show ?thesis
    by blast
qed

section \<open>Properties of the dropdown\<close>

lemma js_index_choice_pair:
  "js_index (choice_pair p) 0 = Inr (fst p)" "js_index (choice_pair p) (Suc 0) = Inr (snd p)"
  by (simp_all add: js_index_def choice_pair_def)

lemma forEach_option_pairs:
  "selectedIndex input = Some i \<Longrightarrow>
   forEach_option (map choice_pair ps) input =
     Inr (input\<lparr>options := options input @ map option_of ps\<rparr>)"
proof (induction ps arbitrary: input)
  case Nil
  then show ?case by simp
next
  case (Cons p ps)
  have "selectedIndex (appendTo (option_of p) input) = Some i"
    using Cons.prems by (simp add: appendTo_def)
  from Cons.IH [OF this] show ?case
    using Cons.prems by (simp add: js_index_choice_pair option_of_def appendTo_def)
qed

lemma insort_key_map:
  "insort_key f (g x) (map g xs) = map g (insort_key (\<lambda>y. f (g y)) x xs)"
  by (induction xs) auto

lemma sort_key_map:
  "sort_key f (map g xs) = map g (sort_key (\<lambda>y. f (g y)) xs)"
  by (induction xs) (auto simp: insort_key_map)

lemma js_sort_pairs:
  "js_sort (map choice_pair ps) = map choice_pair (sort_key (\<lambda>p. ToString (choice_pair p)) ps)"
proof -
  have "filter (\<lambda>x. x \<noteq> Prim JUndefined) (map choice_pair ps) = map choice_pair ps"
    by (induction ps) (auto simp: choice_pair_def)
  moreover have "filter (\<lambda>x. x = Prim JUndefined) (map choice_pair ps) = []"
    by (induction ps) (auto simp: choice_pair_def)
  ultimately show ?thesis by (simp add: js_sort_def sort_key_map)
qed

lemma addClass_keeps:
  "options (addClass v el) = options el" "selectedIndex (addClass v el) = selectedIndex el"
  by (simp_all add: addClass_def)

lemma createSelectDropdown_pairs:
  "\<exists>cl. (createSelectDropdown that (JArr (map choice_pair ps)) :: error + 'fn wrapper) =
     Inr \<lparr>children =
            [\<lparr>className = cl,
              options = sentinel # map option_of (sort_key (\<lambda>p. ToString (choice_pair p)) ps),
              selectedIndex = Some 0\<rparr>],
          change_listeners = []\<rparr>"
proof -
  define input0 where "input0 =
    addClass ''dtsb-value dtsb-dropDown form-select dtsb-italic dtsb-greyscale''
      (addClass (classes_input that) (addClass (classes_value that)
         \<lparr>className = [], options = [], selectedIndex = None\<rparr>))"
  define input1 where "input1 = appendTo \<lparr>opt_value = [], opt_text = ''Select''\<rparr> input0"
  have sel: "selectedIndex input1 = Some 0" and opts: "options input1 = [sentinel]"
    by (simp_all add: input1_def input0_def appendTo_def sentinel_def addClass_keeps)
  have "forEach_option (js_sort (map choice_pair ps)) input1 =
     Inr (input1\<lparr>options := options input1 @
        map option_of (sort_key (\<lambda>p. ToString (choice_pair p)) ps)\<rparr>)"
    unfolding js_sort_pairs by (rule forEach_option_pairs [OF sel])
  then have "(createSelectDropdown that (JArr (map choice_pair ps)) :: error + 'fn wrapper) =
     Inr \<lparr>children = [input1\<lparr>options := sentinel #
        map option_of (sort_key (\<lambda>p. ToString (choice_pair p)) ps)\<rparr>], change_listeners = []\<rparr>"
    by (simp add: createSelectDropdown_def Array_from_def Let_def input1_def input0_def
        opts [unfolded input1_def input0_def])
  moreover have "input1\<lparr>options := sentinel #
        map option_of (sort_key (\<lambda>p. ToString (choice_pair p)) ps)\<rparr> =
      \<lparr>className = className input1, options = sentinel #
        map option_of (sort_key (\<lambda>p. ToString (choice_pair p)) ps), selectedIndex = Some 0\<rparr>"
    using sel by (cases input1) simp
  ultimately show ?thesis by auto
qed

lemma forEach_option_keeps:
  "forEach_option items input = Inr input' \<Longrightarrow> selectedIndex input = Some i \<Longrightarrow>
   selectedIndex input' = Some i \<and> (\<exists>more. options input' = options input @ more)"
proof (induction items arbitrary: input)
  case Nil
  then show ?case by simp
next
  case (Cons item items)
  from Cons.prems(1) obtain v l where
    step: "forEach_option items
             (appendTo \<lparr>opt_value = val_set v, opt_text = text_set l\<rparr> input) = Inr input'"
    by (auto split: sum.splits)
  have "selectedIndex (appendTo \<lparr>opt_value = val_set v, opt_text = text_set l\<rparr> input) = Some i"
    using Cons.prems(2) by (simp add: appendTo_def)
  from Cons.IH [OF step this] show ?case
    by (auto simp: appendTo_def)
qed

lemma createSelectDropdown_shape:
  assumes "createSelectDropdown that values = Inr w"
  shows "\<exists>sel more. w = \<lparr>children = [sel], change_listeners = []\<rparr> \<and>
           selectedIndex sel = Some 0 \<and> options sel = sentinel # more"
proof -
  define input1 where "input1 = appendTo \<lparr>opt_value = [], opt_text = ''Select''\<rparr>
    (addClass ''dtsb-value dtsb-dropDown form-select dtsb-italic dtsb-greyscale''
      (addClass (classes_input that) (addClass (classes_value that)
         \<lparr>className = [], options = [], selectedIndex = None\<rparr>)))"
  have sel: "selectedIndex input1 = Some 0" and opts: "options input1 = [sentinel]"
    by (simp_all add: input1_def appendTo_def sentinel_def addClass_keeps)
  from assms obtain items sel' where
    run: "forEach_option (js_sort items) input1 = Inr sel'" and
    w: "w = \<lparr>children = [sel'], change_listeners = []\<rparr>"
    by (auto simp: createSelectDropdown_def Let_def input1_def split: sum.splits)
  from forEach_option_keeps [OF run sel] opts w show ?thesis by auto
qed

lemma createSelectDropdown_not_iterable:
  "createSelectDropdown that (Prim JUndefined) = Inl TypeError"
  by (simp add: createSelectDropdown_def Array_from_def)

lemma val_set_string: "val_set (Prim (JStr s)) = s"
  by (simp add: val_set_def prim_ToString_def)

lemma text_set_string: "text_set (Prim (JStr s)) = s"
  by (simp add: text_set_def prim_ToString_def)

lemma array_init_eq:
  assumes "d \<in> {array_equal fc, array_notEqual fc, array_contains fc, array_notContains fc}"
  shows "invoke (init d) (that, fn, h) =
     (case createSelectDropdown that (get_field_choices (origData that) fc) of
        Inl e \<Rightarrow> Inl e
      | Inr el \<Rightarrow> Inr (Some (el\<lparr>change_listeners := change_listeners el @ [(fn, that)]\<rparr>), h))"
    and "invoke (inputValue d) (el, that') = Inr (find_select_val el)"
    and "invoke (isInputValid d) (el, that') = length_gt0 (find_select_val el)"
  using assms
  by (auto simp: invoke_def array_equal_def array_notEqual_def array_contains_def
      array_notContains_def)

lemma find_select_val_selected:
  assumes "children w = [sel]" "i < length (options sel)"
  shows "find_select_val [select_option i w] = JStr (opt_value (options sel ! i))"
  using assms by (simp add: find_select_val_def select_option_def select_val_def)

lemmas dropdown_eval =
  createSelectDropdown_def addClass_def html_space_def appendTo_def Array_from_def js_sort_def
  js_index_def val_set_def text_set_def prim_ToString_def NumberToString_def nat_digits.simps
  SafeInteger_inverse

lemma num_dropdown:
  "(createSelectDropdown ex_that (JArr [JArr [Prim (JNum (SafeInteger 1)), Prim (JStr ''One'')]])
      :: error + unit wrapper) =
   Inr \<lparr>children = [num_select], change_listeners = []\<rparr>"
  by (simp add: dropdown_eval)

lemma str_dropdown:
  "(createSelectDropdown ex_that (JArr (map choice_pair str_pairs)) :: error + unit wrapper) =
   Inr \<lparr>children = [str_select], change_listeners = []\<rparr>"
  by (simp add: dropdown_eval choice_pair_def)

text \<open>
  Claim C4, as amended. For every choice list, \<^verbatim>\<open>createSelectDropdown\<close> returns a wrapper
  with one single-select control, in which the sentinel (empty value, label "Select") is
  selected and comes first, followed by exactly one option per choice pair, in the order
  of the default sort of the pairs (stable, by the string of the pair). The value of an
  option is the string that jQuery's \<^verbatim>\<open>.val\<close> stores for the pair's first element and
  its label the string that \<^verbatim>\<open>.text\<close> stores for the second; they are the elements
  themselves when these are strings.
\<close>

theorem createSelectDropdown_options:
  "\<exists>cl. (createSelectDropdown that (JArr (map choice_pair ps)) :: error + 'fn wrapper) =
     Inr \<lparr>children =
            [\<lparr>className = cl,
              options = sentinel # map option_of (sort_key (\<lambda>p. ToString (choice_pair p)) ps),
              selectedIndex = Some 0\<rparr>],
          change_listeners = []\<rparr> \<and>
     (\<forall>s t. option_of (Prim (JStr s), Prim (JStr t)) = \<lparr>opt_value = s, opt_text = t\<rparr>)"
  using createSelectDropdown_pairs [of that ps]
  by (simp add: option_of_def val_set_string text_set_string)

text \<open>
  The claim as stated fails where a choice value is not a string: for the choice list
  \<^verbatim>\<open>[[1, "One"]]\<close> the value of the option is the string \<^verbatim>\<open>"1"\<close>, not the number 1.
\<close>

theorem createSelectDropdown_number_value_counterexample:
  "(createSelectDropdown ex_that (JArr [JArr [Prim (JNum (SafeInteger 1)), Prim (JStr ''One'')]])
      :: error + unit wrapper) =
     Inr \<lparr>children = [num_select], change_listeners = []\<rparr> \<and>
   options num_select ! 1 = \<lparr>opt_value = ''1'', opt_text = ''One''\<rparr> \<and>
   Prim (JStr (opt_value (options num_select ! 1))) \<noteq> Prim (JNum (SafeInteger 1))"
  using num_dropdown by simp

theorem createSelectDropdown_options_witness:
  "(createSelectDropdown ex_that (JArr (map choice_pair str_pairs)) :: error + unit wrapper) =
     Inr \<lparr>children = [str_select], change_listeners = []\<rparr> \<and>
   options str_select =
     sentinel # map option_of (sort_key (\<lambda>p. ToString (choice_pair p)) str_pairs)"
  using createSelectDropdown_options [of ex_that str_pairs, where ?'fn = unit] str_dropdown
  by auto

section \<open>Properties of the array conditions\<close>

text \<open>
  Claim C2. For every handle that the \<open>init\<close> of one of the four array conditions
  returns, \<open>isInputValid\<close> is false while the sentinel is selected (the state in which
  the control is rendered), and after the user has selected the option at any index it
  is false exactly when the value of that option is the empty string, and true otherwise.
\<close>

theorem array_isInputValid_iff_nonempty:
  assumes d: "d \<in> {array_equal fc, array_notEqual fc, array_contains fc, array_notContains fc}"
    and ini: "invoke (init d) (that, fn, h) = Inr (Some w, h')"
  shows "\<exists>sel. children w = [sel] \<and>
           invoke (isInputValid d) ([w], that') = Inr False \<and>
           (\<forall>i < length (options sel).
              invoke (isInputValid d) ([select_option i w], that') =
                Inr (opt_value (options sel ! i) \<noteq> []))"
proof -
  from ini obtain el where
    el: "createSelectDropdown that (get_field_choices (origData that) fc) = Inr el" and
    w: "w = el\<lparr>change_listeners := change_listeners el @ [(fn, that)]\<rparr>"
    unfolding array_init_eq(1) [OF d] by (auto split: sum.splits)
  from createSelectDropdown_shape [OF el] obtain sel more where
    shape: "el = \<lparr>children = [sel], change_listeners = []\<rparr>"
      "selectedIndex sel = Some 0" "options sel = sentinel # more"
    by blast
  have ch: "children w = [sel]" using w shape(1) by simp
  have "find_select_val [w] = JStr []"
    using ch shape(2,3) by (simp add: find_select_val_def select_val_def sentinel_def)
  then have initial: "invoke (isInputValid d) ([w], that') = Inr False"
    by (simp add: array_init_eq(3) [OF d] length_gt0_def)
  have "invoke (isInputValid d) ([select_option i w], that') =
          Inr (opt_value (options sel ! i) \<noteq> [])" if "i < length (options sel)" for i
    by (simp add: array_init_eq(3) [OF d] find_select_val_selected [OF ch that] length_gt0_def)
  with ch initial show ?thesis by blast
qed

lemma str_init:
  "invoke (init (array_contains str_config)) (ex_that, (), ex_host) =
     Inr (Some \<lparr>children = [str_select], change_listeners = [((), ex_that)]\<rparr>, ex_host)"
  using str_dropdown by (simp add: invoke_def array_contains_def choice_pair_def)

theorem array_isInputValid_iff_nonempty_witness:
  "invoke (isInputValid (array_contains str_config))
     ([\<lparr>children = [str_select], change_listeners = [((), ex_that)]\<rparr>], ex_that) = Inr False \<and>
   invoke (isInputValid (array_contains str_config))
     ([select_option 0 \<lparr>children = [str_select], change_listeners = [((), ex_that)]\<rparr>], ex_that) =
     Inr False \<and>
   invoke (isInputValid (array_contains str_config))
     ([select_option 2 \<lparr>children = [str_select], change_listeners = [((), ex_that)]\<rparr>], ex_that) =
     Inr True"
proof -
  have d: "array_contains str_config \<in>
      {array_equal str_config, array_notEqual str_config, array_contains str_config,
       array_notContains str_config :: (unit wrapper list \<times> criteria, unit) descriptor}"
    by simp
  from array_isInputValid_iff_nonempty [OF d str_init, of ex_that]
  show ?thesis by auto
qed

lemma num_init:
  "invoke (init (array_equal num_config)) (ex_that, (), ex_host) =
     Inr (Some \<lparr>children = [num_select], change_listeners = [((), ex_that)]\<rparr>, ex_host)"
  using num_dropdown by (simp add: invoke_def array_equal_def)

text \<open>
  Claim C3, as amended. For every choice list and every choice pair \<open>(v, l)\<close> in it, the
  control that \<open>init\<close> renders has an option built from that pair, and after the user has
  selected any option built from it, \<open>inputValue\<close> returns the string that jQuery's
  \<^verbatim>\<open>.val\<close> stored for \<open>v\<close>: the empty string for \<^verbatim>\<open>null\<close> and \<^verbatim>\<open>undefined\<close>, otherwise the
  string of \<open>v\<close>, which is \<open>v\<close> itself when \<open>v\<close> is a string.
\<close>

theorem array_inputValue_round_trip:
  assumes d: "d \<in> {array_equal fc, array_notEqual fc, array_contains fc, array_notContains fc}"
    and ch: "get_field_choices (origData that) fc = JArr (map choice_pair ps)"
    and p: "(v, l) \<in> set ps"
  shows "\<exists>w sel k. invoke (init d) (that, fn, h) = Inr (Some w, h) \<and> children w = [sel] \<and>
           k < length (options sel) \<and> options sel ! k = option_of (v, l) \<and>
           (\<forall>j < length (options sel). options sel ! j = option_of (v, l) \<longrightarrow>
              invoke (inputValue d) ([select_option j w], that') = Inr (JStr (val_set v))) \<and>
           (\<forall>s. v = Prim (JStr s) \<longrightarrow> val_set v = s)"
proof -
  let ?sorted = "sort_key (\<lambda>p. ToString (choice_pair p)) ps"
  from createSelectDropdown_pairs [of that ps, where ?'fn = 'a] obtain cl where
    el: "(createSelectDropdown that (JArr (map choice_pair ps)) :: error + 'a wrapper) =
      Inr \<lparr>children = [\<lparr>className = cl, options = sentinel # map option_of ?sorted,
                          selectedIndex = Some 0\<rparr>], change_listeners = []\<rparr>"
    by blast
  define sel where "sel = \<lparr>className = cl, options = sentinel # map option_of ?sorted,
    selectedIndex = Some 0\<rparr>"
  define w :: "'a wrapper" where "w = \<lparr>children = [sel], change_listeners = [(fn, that)]\<rparr>"
  have ini: "invoke (init d) (that, fn, h) = Inr (Some w, h)"
    by (simp add: array_init_eq(1) [OF d] ch el w_def sel_def)
  have chw: "children w = [sel]" by (simp add: w_def)
  from p have "(v, l) \<in> set ?sorted" by simp
  then obtain i where i: "i < length ?sorted" "?sorted ! i = (v, l)"
    unfolding in_set_conv_nth by blast
  then have k: "Suc i < length (options sel)" "options sel ! Suc i = option_of (v, l)"
    by (simp_all add: sel_def)
  have "invoke (inputValue d) ([select_option j w], that') = Inr (JStr (val_set v))"
    if "j < length (options sel)" "options sel ! j = option_of (v, l)" for j
    using that by (simp add: array_init_eq(2) [OF d] find_select_val_selected [OF chw that(1)]
        option_of_def)
  with ini chw k show ?thesis by (auto simp: val_set_string)
qed

text \<open>
  The claim as stated fails where a choice value is not a string: for the choice list
  \<^verbatim>\<open>[[1, "One"]]\<close>, after the option built from the pair has been selected,
  \<open>inputValue\<close> returns the string \<^verbatim>\<open>"1"\<close>, not the number 1.
\<close>

theorem array_inputValue_number_choice_counterexample:
  "invoke (init (array_equal num_config)) (ex_that, (), ex_host) =
     Inr (Some \<lparr>children = [num_select], change_listeners = [((), ex_that)]\<rparr>, ex_host) \<and>
   invoke (inputValue (array_equal num_config))
     ([select_option 1 \<lparr>children = [num_select], change_listeners = [((), ex_that)]\<rparr>],
      ex_that) = Inr (JStr ''1'') \<and>
   JStr ''1'' \<noteq> JNum (SafeInteger 1)"
  using num_init
  by (simp add: invoke_def array_equal_def find_select_val_def select_option_def select_val_def)

theorem array_inputValue_round_trip_witness:
  "invoke (init (array_contains str_config)) (ex_that, (), ex_host) =
     Inr (Some \<lparr>children = [str_select], change_listeners = [((), ex_that)]\<rparr>, ex_host) \<and>
   options str_select ! 2 = option_of (Prim (JStr ''b''), Prim (JStr ''B'')) \<and>
   invoke (inputValue (array_contains str_config))
     ([select_option 2 \<lparr>children = [str_select], change_listeners = [((), ex_that)]\<rparr>],
      ex_that) = Inr (JStr ''b'')"
proof -
  have d: "array_contains str_config \<in>
      {array_equal str_config, array_notEqual str_config, array_contains str_config,
       array_notContains str_config :: (unit wrapper list \<times> criteria, unit) descriptor}"
    by simp
  have ch: "get_field_choices (origData ex_that) str_config = JArr (map choice_pair str_pairs)"
    by (simp add: choice_pair_def)
  have p: "(Prim (JStr ''b''), Prim (JStr ''B'')) \<in> set str_pairs"
    by simp
  have o: "options str_select ! 2 = option_of (Prim (JStr ''b''), Prim (JStr ''B''))"
    by (simp add: option_of_def val_set_string text_set_string)
  from array_inputValue_round_trip [OF d ch p, of "()" ex_host ex_that] str_init o
  show ?thesis by (auto simp: val_set_string)
qed

text \<open>
  Claim C5. The claim says that for a field name that matches no entry of the
  configuration list, \<open>init\<close> of an array condition completes and renders a dropdown with
  the sentinel only. The code does not: \<^verbatim>\<open>get_field_choices\<close> returns \<^verbatim>\<open>undefined\<close>,
  and \<^verbatim>\<open>Array.from(undefined)\<close> in \<^verbatim>\<open>createSelectDropdown\<close> throws a TypeError, for each
  of the four array conditions.
\<close>

theorem array_init_unmatched_field_throws:
  assumes "d \<in> {array_equal fc, array_notEqual fc, array_contains fc, array_notContains fc}"
    and "\<forall>item \<in> set fc. \<not> IsLooselyEqual (name item) (origData that)"
  shows "invoke (init d) (that, fn, h) = Inl TypeError"
  by (simp add: array_init_eq(1) [OF assms(1)] get_field_choices_no_match [OF assms(2)]
      createSelectDropdown_not_iterable)

theorem array_init_unmatched_field_throws_witness:
  "invoke (init (array_equal
      [\<lparr>name = JStr ''status'',
        choices = JArr [JArr [Prim (JStr ''1''), Prim (JStr ''Active'')],
                        JArr [Prim (JStr ''0''), Prim (JStr ''Inactive'')]]\<rparr>]))
     (\<lparr>classes_value = ''dtsb-value'', classes_input = ''dtsb-input'',
       origData = JStr ''missing''\<rparr>, (), ex_host) = Inl TypeError"
proof -
  let ?fc = "[\<lparr>name = JStr ''status'',
        choices = JArr [JArr [Prim (JStr ''1''), Prim (JStr ''Active'')],
                        JArr [Prim (JStr ''0''), Prim (JStr ''Inactive'')]]\<rparr>]"
  let ?that = "\<lparr>classes_value = ''dtsb-value'', classes_input = ''dtsb-input'',
       origData = JStr ''missing''\<rparr>"
  have d: "array_equal ?fc \<in> {array_equal ?fc, array_notEqual ?fc, array_contains ?fc,
       array_notContains ?fc :: (unit wrapper list \<times> criteria, unit) descriptor}"
    by simp
  have n: "\<forall>item \<in> set ?fc. \<not> IsLooselyEqual (name item) (origData ?that)"
    by simp
  from array_init_unmatched_field_throws [OF d n] show ?thesis .
qed

text \<open>
  Claim C7. The four array conditions with a dropdown have the same \<open>init\<close>, the same
  \<open>inputValue\<close> and the same \<open>isInputValid\<close>; each descriptor is the one of \<open>equal\<close> with
  another translation key in \<open>conditionName\<close>, and the four keys are distinct.
\<close>

theorem array_conditions_differ_in_name_only:
  "init (array_notEqual fc) = init (array_equal fc) \<and>
   init (array_contains fc) = init (array_equal fc) \<and>
   init (array_notContains fc) = init (array_equal fc) \<and>
   inputValue (array_notEqual fc) = inputValue (array_equal fc) \<and>
   inputValue (array_contains fc) = inputValue (array_equal fc) \<and>
   inputValue (array_notContains fc) = inputValue (array_equal fc) \<and>
   isInputValid (array_notEqual fc) = isInputValid (array_equal fc) \<and>
   isInputValid (array_contains fc) = isInputValid (array_equal fc) \<and>
   isInputValid (array_notContains fc) = isInputValid (array_equal fc) \<and>
   invoke (conditionName (array_equal fc)) dt =
     Inr (i18n dt ''searchBuilder.conditions.array.equals'') \<and>
   array_notEqual fc = (array_equal fc)
     \<lparr>conditionName := Some (\<lambda>dt. Inr (i18n dt ''searchBuilder.conditions.array.not''))\<rparr> \<and>
   array_contains fc = (array_equal fc)
     \<lparr>conditionName := Some (\<lambda>dt. Inr (i18n dt ''searchBuilder.conditions.array.contains''))\<rparr> \<and>
   array_notContains fc = (array_equal fc)
     \<lparr>conditionName :=
        Some (\<lambda>dt. Inr (i18n dt ''searchBuilder.conditions.array.notContains''))\<rparr> \<and>
   distinct [''searchBuilder.conditions.array.equals'', ''searchBuilder.conditions.array.not'',
     ''searchBuilder.conditions.array.contains'', ''searchBuilder.conditions.array.notContains'']"
  by (simp add: array_equal_def array_notEqual_def array_contains_def array_notContains_def
      invoke_def)

section \<open>Properties of the registry\<close>

lemma noInputCondition_not_empty: "noInputCondition k \<noteq> empty_descriptor"
proof
  assume "noInputCondition k = empty_descriptor"
  from arg_cong [OF this, of isInputValid] show False
    by (simp add: noInputCondition_def empty_descriptor_def)
qed

lemma string_conditions:
  "descriptor_of ''string'' C fc = Some d \<Longrightarrow>
   (C \<in> {''empty'', ''notEmpty''} \<and> (\<exists>k. d = noInputCondition k)) \<or>
   (C \<notin> {''empty'', ''notEmpty''} \<and> d = empty_descriptor)"
  unfolding descriptor_of_def factory_def SearchBuilderConditions_def
  by (simp split: if_splits) blast+

lemma number_conditions:
  "descriptor_of ''number'' C fc = Some d \<Longrightarrow>
   (C \<in> {''empty'', ''notEmpty''} \<and> (\<exists>k. d = noInputCondition k)) \<or>
   (C \<notin> {''empty'', ''notEmpty''} \<and> d = empty_descriptor)"
  unfolding descriptor_of_def factory_def SearchBuilderConditions_def
  by (simp split: if_splits) blast+

lemma date_conditions:
  "descriptor_of ''date'' C fc = Some d \<Longrightarrow>
   (C \<in> {''empty'', ''notEmpty''} \<and> (\<exists>k. d = noInputCondition k)) \<or>
   (C \<notin> {''empty'', ''notEmpty''} \<and> d = empty_descriptor)"
  unfolding descriptor_of_def factory_def SearchBuilderConditions_def
  by (simp split: if_splits) blast+

lemma deferred_conditions:
  assumes "T \<in> {''string'', ''number'', ''date''}" "descriptor_of T C fc = Some d"
  shows "(C \<in> {''empty'', ''notEmpty''} \<and> (\<exists>k. d = noInputCondition k)) \<or>
         (C \<notin> {''empty'', ''notEmpty''} \<and> d = empty_descriptor)"
proof -
  from assms(1) consider "T = ''string''" | "T = ''number''" | "T = ''date''"
    by blast
  then show ?thesis
  proof cases
    case 1
    with assms(2) show ?thesis using string_conditions by blast
  next
    case 2
    with assms(2) show ?thesis using number_conditions by blast
  next
    case 3
    with assms(2) show ?thesis using date_conditions by blast
  qed
qed

text \<open>
  Claim C6, as amended. For every data type among string, number and date and every
  condition name for which the registry's factory returns the empty descriptor (every
  condition of these types but \<open>empty\<close> and \<open>notEmpty\<close>), the descriptor defines none
  of the four methods, so that invoking one of them on it throws a TypeError.
\<close>

theorem empty_descriptor_defines_no_method:
  assumes T: "T \<in> {''string'', ''number'', ''date''}"
    and d: "descriptor_of T C fc = Some d"
    and e: "d = empty_descriptor"
  shows "C \<notin> {''empty'', ''notEmpty''} \<and>
         conditionName d = None \<and> init d = None \<and> inputValue d = None \<and>
         isInputValid d = None \<and>
         invoke (conditionName d) dt = Inl TypeError \<and>
         invoke (init d) (that, fn, h) = Inl TypeError \<and>
         invoke (inputValue d) args = Inl TypeError \<and>
         invoke (isInputValid d) args = Inl TypeError"
proof -
  from deferred_conditions [OF T d] e have "C \<notin> {''empty'', ''notEmpty''}"
    using noInputCondition_not_empty by blast
  then show ?thesis
    by (simp add: e empty_descriptor_def invoke_def)
qed

text \<open>
  The claim as stated fails: \<^verbatim>\<open>SearchBuilderConditions.string.equal()\<close> is \<^verbatim>\<open>{}\<close>, and
  calling its \<open>inputValue\<close> throws a TypeError instead of returning \<^verbatim>\<open>undefined\<close>.
\<close>

theorem empty_descriptor_invocation_counterexample:
  "(descriptor_of ''string'' ''equal'' [] ::
      (unit wrapper list \<times> criteria, unit) descriptor option) = Some empty_descriptor \<and>
   invoke (inputValue (empty_descriptor :: (unit wrapper list \<times> criteria, unit) descriptor))
     ([], ex_that) = Inl TypeError \<and>
   (Inl TypeError :: error + prim) \<noteq> Inr JUndefined"
  by (simp add: descriptor_of_def factory_def SearchBuilderConditions_def empty_descriptor_def
      invoke_def)

theorem empty_descriptor_defines_no_method_witness:
  "(descriptor_of ''number'' ''between'' [] ::
      (unit wrapper list \<times> criteria, unit) descriptor option) = Some empty_descriptor \<and>
   invoke (init (empty_descriptor :: (unit wrapper list \<times> criteria, unit) descriptor))
     (ex_that, (), ex_host) = Inl TypeError \<and>
   invoke (isInputValid (empty_descriptor :: (unit wrapper list \<times> criteria, unit) descriptor))
     ([], ex_that) = Inl TypeError"
proof -
  have T: "''number'' \<in> {''string'', ''number'', ''date''}"
    by simp
  have d: "(descriptor_of ''number'' ''between'' [] ::
      (unit wrapper list \<times> criteria, unit) descriptor option) = Some empty_descriptor"
    by (simp add: descriptor_of_def factory_def SearchBuilderConditions_def)
  from empty_descriptor_defines_no_method [OF T d refl, of _ ex_that "()" ex_host "([], ex_that)"] d
  show ?thesis by blast
qed

section \<open>Properties of the conditions without input\<close>

text \<open>
  Claim C8. For every translation key, the descriptor of \<^verbatim>\<open>noInputCondition\<close> has an
  \<open>isInputValid\<close> that returns true and an \<open>inputValue\<close> that returns \<^verbatim>\<open>undefined\<close>,
  whatever the arguments are (of any type \<open>'a\<close>), and in particular with no argument.
\<close>

theorem noInputCondition_accepts_no_value:
  "invoke (isInputValid (noInputCondition translationKey)) (args :: 'a) = Inr True \<and>
   invoke (inputValue (noInputCondition translationKey)) (args :: 'a) = Inr JUndefined \<and>
   invoke (isInputValid (noInputCondition translationKey)) () = Inr True \<and>
   invoke (inputValue (noInputCondition translationKey)) () = Inr JUndefined"
  by (simp add: noInputCondition_def invoke_def)

lemma draw_once_fold: "draw_once (fold run_listener ls h) = draw_once h"
  by (induction ls arbitrary: h) (auto simp: run_listener_def split: listener.splits)

lemma redrawLogic_fold: "redrawLogic (fold run_listener ls h) = redrawLogic h + length ls"
  by (induction ls arbitrary: h) (auto simp: run_listener_def split: listener.splits)

lemma draw_once_draw: "draw_once (draw h) = []"
  by (simp add: draw_def draw_once_fold)

lemma redrawLogic_draw: "redrawLogic (draw h) = redrawLogic h + length (draw_once h)"
  by (simp add: draw_def redrawLogic_fold)

lemma draw_idle: "draw_once h = [] \<Longrightarrow> draw h = h"
  by (simp add: draw_def)

lemma draws_idle: "draw_once h = [] \<Longrightarrow> draws n h = h"
  by (induction n) (auto simp: draw_idle)

lemma draws_Suc: "draws (Suc n) h = draw h"
  by (simp add: draws_idle draw_once_draw)

text \<open>
  Claim C9. \<open>init\<close> of a descriptor of \<^verbatim>\<open>noInputCondition\<close> returns nothing and binds a
  one-shot listener to the host's draw event: no trigger of the recompute logic happens
  at \<open>init\<close> itself, the first draw event after it triggers the logic exactly once more
  than it would have without the \<open>init\<close> and leaves no listener bound, and any number of
  draw events after the first changes nothing.
\<close>

theorem noInputCondition_init_redraws_once:
  "\<exists>h'. invoke (init (noInputCondition translationKey :: ('a, 'fn) descriptor)) (that, fn, h) =
          Inr (None, h') \<and>
        redrawLogic h' = redrawLogic h \<and>
        redrawLogic (draw h') = redrawLogic (draw h) + 1 \<and>
        draw_once (draw h') = [] \<and>
        (\<forall>n. draws (Suc n) h' = draw h') \<and>
        (\<forall>n. redrawLogic (draws (Suc n) h') = redrawLogic (draws (Suc n) h) + 1)"
  by (simp add: noInputCondition_def invoke_def draws_idle draw_once_draw redrawLogic_draw)

end
